theory Spec2Isabelle
  imports Main "HOL-Library.AList"
begin

section \<open>Python values, exceptions and string helpers\<close>

text \<open>
  The module \<^verbatim>\<open>satosa/attribute_mapping.py\<close> works on JSON-like Python values: attribute
  records are dictionaries from names to lists of strings, and external records may nest
  dictionaries. A dictionary is an association list in insertion order (the order Python
  iterates in); \<open>map_of\<close> is the lookup and \<open>AList.update\<close> the assignment \<^verbatim>\<open>d[k] = v\<close>
  (in place for a present key, appended for a new one).

  Characters are bytes. The module only ever searches for the ASCII characters
  \<^verbatim>\<open>@\<close>, \<^verbatim>\<open>.\<close>, \<^verbatim>\<open>;\<close> and \<^verbatim>\<open>$\<close>, whose bytes never occur inside a multi-byte UTF-8 sequence,
  so splitting bytes and splitting code points agree.
\<close>

datatype pyval =
    PNone
  | PStr string
  | PInt int
  | PBool bool
  | PList "pyval list"
  | PDict "(string \<times> pyval) list"

type_synonym pydict = "(string \<times> pyval) list"

datatype exc =
    NameError
  | TypeError
  | ValueError
  | IndexError
  | KeyError
  | AttributeError
  | RecursionError
  | SyntaxException
  | Unmodelled

text \<open>
  \<open>Unmodelled\<close> is no Python exception: it is what the reference engine below answers for a
  template outside the fragment it covers. No function of the module produces it.
\<close>

text \<open>Python truthiness, as used by \<^verbatim>\<open>if attribute_values:\<close> and \<^verbatim>\<open>elif attr_val:\<close>.\<close>

fun truthy :: "pyval \<Rightarrow> bool" where
  "truthy PNone = False"
| "truthy (PStr s) = (s \<noteq> [])"
| "truthy (PInt i) = (i \<noteq> 0)"
| "truthy (PBool b) = b"
| "truthy (PList xs) = (xs \<noteq> [])"
| "truthy (PDict kvs) = (kvs \<noteq> [])"

text \<open>\<^verbatim>\<open>s.partition(c)\<close> for a one-character separator.\<close>

fun str_partition :: "char \<Rightarrow> string \<Rightarrow> string \<times> string \<times> string" where
  "str_partition c [] = ([], [], [])"
| "str_partition c (x # xs) =
     (if x = c then ([], [c], xs)
      else (case str_partition c xs of (a, s, b) \<Rightarrow> (x # a, s, b)))"

text \<open>\<^verbatim>\<open>s.split(c)\<close> for a one-character separator: never the empty list.\<close>

fun str_split :: "char \<Rightarrow> string \<Rightarrow> string list" where
  "str_split c [] = [[]]"
| "str_split c (x # xs) =
     (if x = c then [] # str_split c xs
      else (case str_split c xs of [] \<Rightarrow> [[x]] | w # ws \<Rightarrow> (x # w) # ws))"

section \<open>The scope filter\<close>

definition scope :: "string \<Rightarrow> exc + string" where
  "scope s =
     (if CHR ''@'' \<notin> set s then Inl ValueError
      else (case str_partition CHR ''@'' s of (local_part, _, domain_part) \<Rightarrow> Inr domain_part))"

section \<open>The attribute mapper\<close>

text \<open>
  The configuration maps an internal attribute name to a dictionary from profile names to
  the ordered list of external names (or template expressions).
\<close>

type_synonym config = "(string \<times> (string \<times> string list) list) list"

type_synonym inverse_table = "(string \<times> (string \<times> string) list) list"

record AttributeMapper =
  separator :: char
  multivalue_separator :: char
  from_internal_attributes :: config
  template_attributes :: "config option"
  to_internal_attributes :: inverse_table

text \<open>
  \<open>to_internal_attributes\<close> is a \<^verbatim>\<open>defaultdict(dict)\<close>: reading a missing key with
  \<^verbatim>\<open>table[key]\<close> stores an empty dictionary under the key and returns it.
  It never raises \<^verbatim>\<open>KeyError\<close>. The result is the value read and the table afterwards.
\<close>

definition dd_getitem :: "inverse_table \<Rightarrow> string \<Rightarrow> (string \<times> string) list \<times> inverse_table" where
  "dd_getitem table key =
     (case map_of table key of
        Some inner \<Rightarrow> (inner, table)
      | None \<Rightarrow> ([], AList.update key [] table))"

subsection \<open>Construction\<close>

text \<open>The innermost loop of \<^verbatim>\<open>__init__\<close>: \<^verbatim>\<open>table[profile][external] = internal\<close>.\<close>

fun invert_names :: "inverse_table \<Rightarrow> string \<Rightarrow> string \<Rightarrow> string list \<Rightarrow> inverse_table" where
  "invert_names table internal_attribute_name profile [] = table"
| "invert_names table internal_attribute_name profile (external_attribute_name # rest) =
     (case dd_getitem table profile of
        (inner, table') \<Rightarrow>
          invert_names
            (AList.update profile
               (AList.update external_attribute_name internal_attribute_name inner) table')
            internal_attribute_name profile rest)"

fun invert_profiles ::
  "inverse_table \<Rightarrow> string \<Rightarrow> (string \<times> string list) list \<Rightarrow> inverse_table" where
  "invert_profiles table internal_attribute_name [] = table"
| "invert_profiles table internal_attribute_name ((profile, external_attribute_names) # rest) =
     invert_profiles
       (invert_names table internal_attribute_name profile external_attribute_names)
       internal_attribute_name rest"

fun invert_attributes :: "inverse_table \<Rightarrow> config \<Rightarrow> inverse_table" where
  "invert_attributes table [] = table"
| "invert_attributes table ((internal_attribute_name, mappings) # rest) =
     invert_attributes (invert_profiles table internal_attribute_name mappings) rest"

text \<open>
  \<^verbatim>\<open>__init__\<close>: \<^verbatim>\<open>internal_attributes["attributes"]\<close> raises \<^verbatim>\<open>KeyError\<close> when the section
  is missing; \<^verbatim>\<open>template_attributes\<close> is optional.
\<close>

definition init :: "(string \<times> config) list \<Rightarrow> exc + AttributeMapper" where
  "init internal_attributes =
     (case map_of internal_attributes ''attributes'' of
        None \<Rightarrow> Inl KeyError
      | Some attrs \<Rightarrow>
          Inr \<lparr> separator = CHR ''.'',
                multivalue_separator = CHR '';'',
                from_internal_attributes = attrs,
                template_attributes = map_of internal_attributes ''template_attributes'',
                to_internal_attributes = invert_attributes [] attrs \<rparr>)"

subsection \<open>The filter\<close>

text \<open>
  The loop of \<^verbatim>\<open>to_internal_filter\<close> adds to a Python set. The set is kept as a
  duplicate-free list; Python fixes no order for \<^verbatim>\<open>list(a_set)\<close>, so only the elements
  of the result mean anything, not their order.
\<close>

fun filter_loop :: "(string \<times> string) list \<Rightarrow> string list \<Rightarrow> string list \<Rightarrow> string list" where
  "filter_loop profile_mapping [] internal_attribute_names = internal_attribute_names"
| "filter_loop profile_mapping (external_attribute_name # rest) internal_attribute_names =
     (case map_of profile_mapping external_attribute_name of
        Some internal_attribute_name \<Rightarrow>
          filter_loop profile_mapping rest
            (List.insert internal_attribute_name internal_attribute_names)
      | None \<Rightarrow> filter_loop profile_mapping rest internal_attribute_names)"

text \<open>
  \<^verbatim>\<open>to_internal_filter\<close> returns the names and the mapper afterwards. The handler
  \<^verbatim>\<open>except KeyError\<close> around \<^verbatim>\<open>self.to_internal_attributes[attribute_profile]\<close> has no
  branch here, because the \<^verbatim>\<open>defaultdict\<close> read cannot raise.
\<close>

definition to_internal_filter ::
  "AttributeMapper \<Rightarrow> string \<Rightarrow> string list \<Rightarrow> string list \<times> AttributeMapper" where
  "to_internal_filter m attribute_profile external_attribute_names =
     (case dd_getitem (to_internal_attributes m) attribute_profile of
        (profile_mapping, table') \<Rightarrow>
          (filter_loop profile_mapping external_attribute_names [],
           m\<lparr>to_internal_attributes := table'\<rparr>))"

subsection \<open>Nested paths\<close>

text \<open>\<^verbatim>\<open>d.get(key)\<close>: only a dictionary has the method.\<close>

fun py_get :: "pyval \<Rightarrow> string \<Rightarrow> exc + pyval" where
  "py_get (PDict kvs) key = Inr (case map_of kvs key of None \<Rightarrow> PNone | Some v \<Rightarrow> v)"
| "py_get _ key = Inl AttributeError"

fun nested_walk :: "string list \<Rightarrow> pyval \<Rightarrow> exc + pyval" where
  "nested_walk [] d = Inr d"
| "nested_walk (key # keys) d =
     (case py_get d key of
        Inl e \<Rightarrow> Inl e
      | Inr d' \<Rightarrow> if d' = PNone then Inr PNone else nested_walk keys d')"

definition get_nested_attribute_value :: "AttributeMapper \<Rightarrow> string \<Rightarrow> pydict \<Rightarrow> exc + pyval" where
  "get_nested_attribute_value m nested_key data =
     nested_walk (str_split (separator m) nested_key) (PDict data)"

text \<open>
  \<^verbatim>\<open>_create_nested_attribute_value\<close>: on the empty list the source recurses on
  \<^verbatim>\<open>[][1:] = []\<close> without end, which Python ends with \<^verbatim>\<open>RecursionError\<close>.
\<close>

fun create_nested_attribute_value :: "string list \<Rightarrow> pyval \<Rightarrow> exc + pyval" where
  "create_nested_attribute_value [] v = Inl RecursionError"
| "create_nested_attribute_value [name] v = Inr (PDict [(name, v)])"
| "create_nested_attribute_value (name # rest) v =
     (case create_nested_attribute_value rest v of
        Inl e \<Rightarrow> Inl e
      | Inr child_dict \<Rightarrow> Inr (PDict [(name, child_dict)]))"

subsection \<open>External to internal\<close>

fun collate_loop ::
  "AttributeMapper \<Rightarrow> string list \<Rightarrow> pydict \<Rightarrow> pyval list \<Rightarrow> exc + pyval list" where
  "collate_loop m [] data result = Inr result"
| "collate_loop m (attr_name # rest) data result =
     (case get_nested_attribute_value m attr_name data of
        Inl e \<Rightarrow> Inl e
      | Inr attr_val \<Rightarrow>
          (case attr_val of
             PList vs \<Rightarrow> collate_loop m rest data (result @ vs)
           | _ \<Rightarrow>
               if truthy attr_val then collate_loop m rest data (result @ [attr_val])
               else collate_loop m rest data result))"

definition collate_attribute_values_by_priority_order ::
  "AttributeMapper \<Rightarrow> string list \<Rightarrow> pydict \<Rightarrow> exc + pyval list" where
  "collate_attribute_values_by_priority_order m attribute_names data =
     collate_loop m attribute_names data []"

text \<open>
  The template engine (Mako) is not part of the module. It is a parameter: \<open>Template\<close> is
  the constructor \<^verbatim>\<open>Template(template, ...)\<close>, which the source calls outside its
  \<^verbatim>\<open>try\<close>, and \<open>render\<close> is \<^verbatim>\<open>t.render(**data)\<close>, called inside it.
\<close>

record 't mako =
  Template :: "string \<Rightarrow> exc + 't"
  render :: "'t \<Rightarrow> pydict \<Rightarrow> exc + pyval"

definition render_attribute_template ::
  "'t mako \<Rightarrow> AttributeMapper \<Rightarrow> string \<Rightarrow> pydict \<Rightarrow> exc + pyval list" where
  "render_attribute_template eng m template data =
     (case Template eng template of
        Inl e \<Rightarrow> Inl e
      | Inr t \<Rightarrow>
          (case render eng t data of
             Inl e \<Rightarrow> if e = NameError \<or> e = TypeError then Inr [] else Inl e
           | Inr rendered \<Rightarrow>
               (case rendered of
                  PStr s \<Rightarrow> Inr (map PStr (str_split (multivalue_separator m) s))
                | _ \<Rightarrow> Inr [])))"

text \<open>The list comprehension over the templates: the first exception ends it.\<close>

fun render_templates ::
  "'t mako \<Rightarrow> AttributeMapper \<Rightarrow> string list \<Rightarrow> pydict \<Rightarrow> exc + pyval list list" where
  "render_templates eng m [] data = Inr []"
| "render_templates eng m (template # rest) data =
     (case render_attribute_template eng m template data of
        Inl e \<Rightarrow> Inl e
      | Inr vs \<Rightarrow>
          (case render_templates eng m rest data of
             Inl e \<Rightarrow> Inl e
           | Inr vss \<Rightarrow> Inr (vs # vss)))"

text \<open>The comprehension \<^verbatim>\<open>templates = [t for t in external_attribute_name if "$" in t]\<close>.\<close>

definition templates_of :: "string list \<Rightarrow> string list" where
  "templates_of external_attribute_name = filter (\<lambda>t. CHR ''$'' \<in> set t) external_attribute_name"

fun template_loop ::
  "'t mako \<Rightarrow> AttributeMapper \<Rightarrow> string \<Rightarrow> config \<Rightarrow> pydict \<Rightarrow> exc + pydict" where
  "template_loop eng m attribute_profile [] internal_dict = Inr internal_dict"
| "template_loop eng m attribute_profile ((internal_attribute_name, mapping) # rest) internal_dict =
     (case map_of mapping attribute_profile of
        None \<Rightarrow> template_loop eng m attribute_profile rest internal_dict
      | Some external_attribute_name \<Rightarrow>
          (case render_templates eng m (templates_of external_attribute_name) internal_dict of
             Inl e \<Rightarrow> Inl e
           | Inr template_attribute_values \<Rightarrow>
               (let flattened_attribute_values = concat template_attribute_values;
                    attribute_values =
                      (if flattened_attribute_values \<noteq> [] then PList flattened_attribute_values
                       else (case map_of internal_dict internal_attribute_name of
                               None \<Rightarrow> PNone
                             | Some v \<Rightarrow> v))
                in if truthy attribute_values
                   then template_loop eng m attribute_profile rest
                          (AList.update internal_attribute_name attribute_values internal_dict)
                   else template_loop eng m attribute_profile rest internal_dict)))"

definition handle_template_attributes ::
  "'t mako \<Rightarrow> AttributeMapper \<Rightarrow> string \<Rightarrow> pydict \<Rightarrow> exc + pydict" where
  "handle_template_attributes eng m attribute_profile internal_dict =
     (case template_attributes m of
        None \<Rightarrow> Inr internal_dict
      | Some tmpl \<Rightarrow>
          if tmpl = [] then Inr internal_dict
          else template_loop eng m attribute_profile tmpl internal_dict)"

text \<open>The first loop of \<^verbatim>\<open>to_internal\<close>, over \<^verbatim>\<open>from_internal_attributes.items()\<close>.\<close>

fun to_internal_loop ::
  "AttributeMapper \<Rightarrow> string \<Rightarrow> pydict \<Rightarrow> config \<Rightarrow> pydict \<Rightarrow> exc + pydict" where
  "to_internal_loop m attribute_profile external_dict [] internal_dict = Inr internal_dict"
| "to_internal_loop m attribute_profile external_dict ((internal_attribute_name, mapping) # rest)
       internal_dict =
     (case map_of mapping attribute_profile of
        None \<Rightarrow> to_internal_loop m attribute_profile external_dict rest internal_dict
      | Some external_attribute_name \<Rightarrow>
          (case collate_attribute_values_by_priority_order m external_attribute_name
                  external_dict of
             Inl e \<Rightarrow> Inl e
           | Inr attribute_values \<Rightarrow>
               if attribute_values \<noteq> []
               then to_internal_loop m attribute_profile external_dict rest
                      (AList.update internal_attribute_name (PList attribute_values) internal_dict)
               else to_internal_loop m attribute_profile external_dict rest internal_dict))"

definition to_internal ::
  "'t mako \<Rightarrow> AttributeMapper \<Rightarrow> string \<Rightarrow> pydict \<Rightarrow> exc + pydict" where
  "to_internal eng m attribute_profile external_dict =
     (case to_internal_loop m attribute_profile external_dict (from_internal_attributes m) [] of
        Inl e \<Rightarrow> Inl e
      | Inr internal_dict \<Rightarrow> handle_template_attributes eng m attribute_profile internal_dict)"

subsection \<open>Internal to external\<close>

text \<open>
  The loop of \<^verbatim>\<open>from_internal\<close> over the keys of \<^verbatim>\<open>internal_dict\<close>.
  \<^verbatim>\<open>external_attribute_names[0]\<close> raises \<^verbatim>\<open>IndexError\<close> on an empty candidate list.
\<close>

fun from_internal_loop ::
  "AttributeMapper \<Rightarrow> string \<Rightarrow> pydict \<Rightarrow> string list \<Rightarrow> pydict \<Rightarrow> exc + pydict" where
  "from_internal_loop m attribute_profile internal_dict [] external_dict = Inr external_dict"
| "from_internal_loop m attribute_profile internal_dict (internal_attribute_name # rest)
       external_dict =
     (case map_of (from_internal_attributes m) internal_attribute_name of
        None \<Rightarrow> from_internal_loop m attribute_profile internal_dict rest external_dict
      | Some attribute_mapping \<Rightarrow>
          (case map_of attribute_mapping attribute_profile of
             None \<Rightarrow> from_internal_loop m attribute_profile internal_dict rest external_dict
           | Some external_attribute_names \<Rightarrow>
               (case external_attribute_names of
                  [] \<Rightarrow> Inl IndexError
                | external_attribute_name # _ \<Rightarrow>
                    (case map_of internal_dict internal_attribute_name of
                       None \<Rightarrow> Inl KeyError
                     | Some v \<Rightarrow>
                         if separator m \<in> set external_attribute_name
                         then (case str_split (separator m) external_attribute_name of
                                 [] \<Rightarrow> Inl IndexError
                               | first # nested_attribute_names \<Rightarrow>
                                   (case create_nested_attribute_value nested_attribute_names v of
                                      Inl e \<Rightarrow> Inl e
                                    | Inr nested_dict \<Rightarrow>
                                        from_internal_loop m attribute_profile internal_dict rest
                                          (AList.update first nested_dict external_dict)))
                         else from_internal_loop m attribute_profile internal_dict rest
                                (AList.update external_attribute_name v external_dict)))))"

definition from_internal :: "AttributeMapper \<Rightarrow> string \<Rightarrow> pydict \<Rightarrow> exc + pydict" where
  "from_internal m attribute_profile internal_dict =
     from_internal_loop m attribute_profile internal_dict (map fst internal_dict) []"

section \<open>A reference engine for one-substitution templates\<close>

text \<open>
  To run the mapper on concrete templates, the engine parameter is instantiated with a
  model of Mako on a small fragment: literal text around at most one substitution
  \<^verbatim>\<open>${name[i]}\<close> or \<^verbatim>\<open>${name[i] | scope}\<close>. On this fragment Mako behaves as follows.
  A name that \<^verbatim>\<open>render(**data)\<close> does not bind is Mako's \<^verbatim>\<open>UNDEFINED\<close>, and subscripting
  it raises \<^verbatim>\<open>TypeError\<close> (the names of the fragment are attribute names, not Python
  builtins or Mako's reserved names). Subscripting a list out of range raises
  \<^verbatim>\<open>IndexError\<close>. The value is converted with \<^verbatim>\<open>str\<close>, the filter \<open>scope\<close> of the module
  is applied to the string, and an exception raised by the expression or the filter leaves
  \<^verbatim>\<open>render\<close> as it is. Everything outside the fragment gives \<open>Unmodelled\<close>.
\<close>

datatype mako_template =
    MakoText string
  | MakoSubst string string nat bool string

definition plain_text :: "string \<Rightarrow> bool" where
  "plain_text s =
     (set s \<inter> set ''${}<>%#'' = {} \<and> CHR 0x5C \<notin> set s \<and> CHR 0x0A \<notin> set s \<and> CHR 0x0D \<notin> set s)"

fun find_subst :: "string \<Rightarrow> (string \<times> string) option" where
  "find_subst [] = None"
| "find_subst [c] = None"
| "find_subst (c # d # cs) =
     (if c = CHR ''$'' \<and> d = CHR ''{'' then Some ([], cs)
      else (case find_subst (d # cs) of None \<Rightarrow> None | Some (a, b) \<Rightarrow> Some (c # a, b)))"

definition strip_spaces :: "string \<Rightarrow> string" where
  "strip_spaces s =
     rev (dropWhile (\<lambda>c. c = CHR '' '') (rev (dropWhile (\<lambda>c. c = CHR '' '') s)))"

definition digit_of :: "char \<Rightarrow> nat option" where
  "digit_of c = map_of (zip ''0123456789'' [0, 1, 2, 3, 4, 5, 6, 7, 8, 9]) c"

fun digits_value :: "string \<Rightarrow> nat \<Rightarrow> nat option" where
  "digits_value [] acc = Some acc"
| "digits_value (c # cs) acc =
     (case digit_of c of None \<Rightarrow> None | Some d \<Rightarrow> digits_value cs (10 * acc + d))"

definition py_identifier :: "string \<Rightarrow> bool" where
  "py_identifier s =
     (s \<noteq> [] \<and> digit_of (hd s) = None \<and>
      set s \<subseteq> set ''abcdefghijklmnopqrstuvwxyzABCDEFGHIJKLMNOPQRSTUVWXYZ_0123456789'')"

text \<open>The body of a substitution: \<^verbatim>\<open>name[i]\<close>, then perhaps \<^verbatim>\<open>| scope\<close>.\<close>

definition parse_subst :: "string \<Rightarrow> (string \<times> nat \<times> bool) option" where
  "parse_subst body =
     (case str_partition CHR ''|'' body of
        (e, bar, f) \<Rightarrow>
          if bar \<noteq> [] \<and> strip_spaces f \<noteq> ''scope'' then None
          else (case str_partition CHR ''['' (strip_spaces e) of
                  (name, lb, idx) \<Rightarrow>
                    if lb = [] \<or> idx = [] \<or> last idx \<noteq> CHR '']'' \<or> butlast idx = [] \<or>
                       \<not> py_identifier name then None
                    else (case digits_value (butlast idx) 0 of
                            None \<Rightarrow> None
                          | Some i \<Rightarrow> Some (name, i, bar \<noteq> []))))"

definition mako_Template :: "string \<Rightarrow> exc + mako_template" where
  "mako_Template template =
     (case find_subst template of
        None \<Rightarrow> if plain_text template then Inr (MakoText template) else Inl Unmodelled
      | Some (lead, rest) \<Rightarrow>
          (case str_partition CHR ''}'' rest of
             (body, brace, trail) \<Rightarrow>
               if brace = [] then Inl SyntaxException
               else if \<not> plain_text lead \<or> \<not> plain_text trail then Inl Unmodelled
               else (case parse_subst body of
                       None \<Rightarrow> Inl Unmodelled
                     | Some (name, i, scoped) \<Rightarrow> Inr (MakoSubst lead name i scoped trail))))"

text \<open>\<^verbatim>\<open>str(value[i])\<close> for a list of strings; other values are outside the fragment.\<close>

definition mako_subscript :: "pyval option \<Rightarrow> nat \<Rightarrow> exc + string" where
  "mako_subscript bound i =
     (case bound of
        None \<Rightarrow> Inl TypeError
      | Some (PList vs) \<Rightarrow>
          if i < length vs then (case vs ! i of PStr s \<Rightarrow> Inr s | _ \<Rightarrow> Inl Unmodelled)
          else Inl IndexError
      | Some _ \<Rightarrow> Inl Unmodelled)"

definition mako_render :: "mako_template \<Rightarrow> pydict \<Rightarrow> exc + pyval" where
  "mako_render t data =
     (case t of
        MakoText s \<Rightarrow> Inr (PStr s)
      | MakoSubst lead name i scoped trail \<Rightarrow>
          (case mako_subscript (map_of data name) i of
             Inl e \<Rightarrow> Inl e
           | Inr s \<Rightarrow>
               if scoped
               then (case scope s of
                       Inl e \<Rightarrow> Inl e
                     | Inr domain_part \<Rightarrow> Inr (PStr (lead @ domain_part @ trail)))
               else Inr (PStr (lead @ s @ trail))))"

definition mako_engine :: "mako_template mako" where
  "mako_engine = \<lparr> Template = mako_Template, render = mako_render \<rparr>"

section \<open>Specification-side notions\<close>

text \<open>
  The path stays within mappings: every value in which a segment has to be looked up is
  a dictionary. The traversal stops at a segment that is absent or bound to \<^verbatim>\<open>None\<close>, so
  nothing is asked of the later segments then.
\<close>

fun mapping_path :: "string list \<Rightarrow> pyval \<Rightarrow> bool" where
  "mapping_path [] d = True"
| "mapping_path (key # keys) (PDict kvs) =
     (case map_of kvs key of
        None \<Rightarrow> True
      | Some v \<Rightarrow> if v = PNone then True else mapping_path keys v)"
| "mapping_path (key # keys) _ = False"

text \<open>The value a dotted path names in a nested record, \<open>None\<close> when there is none.\<close>

fun lookup_path :: "string list \<Rightarrow> pyval \<Rightarrow> pyval option" where
  "lookup_path [] d = Some d"
| "lookup_path (key # keys) (PDict kvs) =
     (case map_of kvs key of None \<Rightarrow> None | Some v \<Rightarrow> lookup_path keys v)"
| "lookup_path (key # keys) _ = None"

text \<open>
  What one resolved value adds to a collated sequence: a list is spread, any other value
  is appended when it is truthy and dropped when it is falsy.
\<close>

fun contribution :: "pyval \<Rightarrow> pyval list" where
  "contribution (PList vs) = vs"
| "contribution v = (if truthy v then [v] else [])"

text \<open>The first segment of a dotted name.\<close>

definition first_segment :: "AttributeMapper \<Rightarrow> string \<Rightarrow> string" where
  "first_segment m name = hd (str_split (separator m) name)"

section \<open>Helper lemmas\<close>

lemmas run_defs =
  init_def dd_getitem_def to_internal_def from_internal_def handle_template_attributes_def
  collate_attribute_values_by_priority_order_def get_nested_attribute_value_def
  render_attribute_template_def templates_of_def first_segment_def to_internal_filter_def

lemmas mako_defs =
  mako_engine_def mako_Template_def mako_render_def parse_subst_def strip_spaces_def
  digit_of_def py_identifier_def plain_text_def mako_subscript_def scope_def

subsection \<open>Strings\<close>

lemma str_partition_first:
  "c \<notin> set pre \<Longrightarrow> str_partition c (pre @ c # suf) = (pre, [c], suf)"
  by (induction pre) auto

lemma str_split_nonempty: "str_split c s \<noteq> []"
  by (induction s) (auto split: list.splits)

lemma str_split_no_sep: "c \<notin> set s \<Longrightarrow> str_split c s = [s]"
  by (induction s) auto

subsection \<open>Nested paths\<close>

lemma nested_walk_mapping:
  "mapping_path ks d \<Longrightarrow>
   nested_walk ks d = Inr (case lookup_path ks d of None \<Rightarrow> PNone | Some v \<Rightarrow> v)"
proof (induction ks d rule: mapping_path.induct)
  case (1 d)
  then show ?case by simp
next
  case (2 key keys kvs)
  then show ?case by (cases keys) (auto split: option.splits)
qed simp_all

lemma nested_walk_not_mapping:
  "\<not> mapping_path ks d \<Longrightarrow> nested_walk ks d = Inl AttributeError"
  by (induction ks d rule: mapping_path.induct) (auto split: option.splits if_splits)

lemma get_nested_other_key:
  "first_segment m n \<noteq> X \<Longrightarrow> get_nested_attribute_value m n [(X, v)] = Inr PNone"
  using str_split_nonempty[of "separator m" n]
  by (cases "str_split (separator m) n")
     (auto simp: first_segment_def get_nested_attribute_value_def)

subsection \<open>Collation\<close>

lemma collate_loop_contribution:
  "map (\<lambda>n. get_nested_attribute_value m n data) names = map Inr vals \<Longrightarrow>
   collate_loop m names data result = Inr (result @ concat (map contribution vals))"
proof (induction names arbitrary: vals result)
  case Nil
  then show ?case by simp
next
  case (Cons n names)
  then obtain v vs where vals: "vals = v # vs" by (cases vals) auto
  with Cons.prems have n: "get_nested_attribute_value m n data = Inr v"
    and rest: "map (\<lambda>n. get_nested_attribute_value m n data) names = map Inr vs" by auto
  show ?case using Cons.IH[OF rest] n vals by (cases v) simp_all
qed

lemma collate_loop_all_missing:
  "list_all (\<lambda>n. get_nested_attribute_value m n data = Inr PNone) names \<Longrightarrow>
   collate_loop m names data result = Inr result"
  by (induction names arbitrary: result) auto

subsection \<open>The filter loop\<close>

lemma filter_loop_set:
  "set (filter_loop pm names acc) = set acc \<union> {i. \<exists>e\<in>set names. map_of pm e = Some i}"
  by (induction names arbitrary: acc) (auto split: option.splits)

lemma filter_loop_distinct: "distinct acc \<Longrightarrow> distinct (filter_loop pm names acc)"
  by (induction names arbitrary: acc) (auto split: option.splits)

lemma filter_loop_empty: "filter_loop [] names acc = acc"
  by (induction names arbitrary: acc) auto

subsection \<open>The loop of the plain mapping pass\<close>

lemma to_internal_loop_other:
  "to_internal_loop m P rec items d = Inr res \<Longrightarrow> A \<notin> fst ` set items \<Longrightarrow>
   map_of res A = map_of d A"
proof (induction items arbitrary: d)
  case Nil
  then show ?case by simp
next
  case (Cons x items)
  obtain C mC where x: "x = (C, mC)" by (cases x)
  with Cons.prems have CA: "C \<noteq> A" and rest: "A \<notin> fst ` set items" by auto
  show ?case using Cons.prems(1) Cons.IH[OF _ rest] CA x
    by (auto simp: update_conv' split: option.splits sum.splits if_splits)
qed

lemma to_internal_loop_hit:
  "to_internal_loop m P rec items d = Inr res \<Longrightarrow> distinct (map fst items) \<Longrightarrow>
   (A, mapping) \<in> set items \<Longrightarrow> map_of mapping P = Some names \<Longrightarrow>
   collate_attribute_values_by_priority_order m names rec = Inr vals \<Longrightarrow> vals \<noteq> [] \<Longrightarrow>
   map_of res A = Some (PList vals)"
proof (induction items arbitrary: d)
  case Nil
  then show ?case by simp
next
  case (Cons x items)
  obtain C mC where x: "x = (C, mC)" by (cases x)
  show ?case
  proof (cases "x = (A, mapping)")
    case True
    with Cons.prems(2) have notin: "A \<notin> fst ` set items" by auto
    from True Cons.prems(1,4,5,6)
    have "to_internal_loop m P rec items (AList.update A (PList vals) d) = Inr res" by simp
    from to_internal_loop_other[OF this notin] show ?thesis by (simp add: update_conv')
  next
    case False
    with Cons.prems(3) have mem: "(A, mapping) \<in> set items" by auto
    from Cons.prems(2) have dist: "distinct (map fst items)" by simp
    from Cons.prems(1) x obtain d' where "to_internal_loop m P rec items d' = Inr res"
      by (auto split: option.splits sum.splits if_splits)
    from Cons.IH[OF this dist mem Cons.prems(4,5,6)] show ?thesis .
  qed
qed

lemma round_trip_loop:
  assumes sep: "separator m \<notin> set X"
  shows "list_all (\<lambda>(B, mB). case map_of mB P of None \<Rightarrow> True
            | Some names \<Rightarrow> (B = A \<and> names = [X]) \<or>
                list_all (\<lambda>n. first_segment m n \<noteq> X) names) items \<Longrightarrow>
   to_internal_loop m P [(X, PList [v])] items d =
     Inr (if list_ex (\<lambda>(B, mB). map_of mB P = Some [X]) items
          then AList.update A (PList [v]) d else d)"
proof (induction items arbitrary: d)
  case Nil
  then show ?case by simp
next
  case (Cons x items)
  obtain B mB where x: "x = (B, mB)" by (cases x)
  from Cons.prems have rest: "list_all (\<lambda>(B, mB). case map_of mB P of None \<Rightarrow> True
            | Some names \<Rightarrow> (B = A \<and> names = [X]) \<or>
                list_all (\<lambda>n. first_segment m n \<noteq> X) names) items"
    by simp
  note IH = Cons.IH[OF rest]
  have selfX: "first_segment m X = X"
    using sep by (simp add: first_segment_def str_split_no_sep)
  show ?case
  proof (cases "map_of mB P")
    case None
    with x IH show ?thesis by simp
  next
    case (Some names)
    show ?thesis
    proof (cases "names = [X]")
      case True
      with Cons.prems x Some selfX have BA: "B = A" by auto
      have "collate_attribute_values_by_priority_order m [X] [(X, PList [v])] = Inr [v]"
        using sep by (simp add: collate_attribute_values_by_priority_order_def
            get_nested_attribute_value_def str_split_no_sep)
      with x Some True BA IH show ?thesis by simp
    next
      case False
      with Cons.prems x Some have "list_all (\<lambda>n. first_segment m n \<noteq> X) names" by auto
      then have "list_all (\<lambda>n. get_nested_attribute_value m n [(X, PList [v])] = Inr PNone) names"
        by (simp add: list_all_iff get_nested_other_key)
      then have "collate_attribute_values_by_priority_order m names [(X, PList [v])] = Inr []"
        by (simp add: collate_attribute_values_by_priority_order_def collate_loop_all_missing)
      with x Some False IH show ?thesis by simp
    qed
  qed
qed

subsection \<open>The loop of the template pass\<close>

lemma render_templates_append:
  "render_templates eng m (xs @ ys) d =
     (case render_templates eng m xs d of
        Inl e \<Rightarrow> Inl e
      | Inr a \<Rightarrow> (case render_templates eng m ys d of Inl e \<Rightarrow> Inl e | Inr b \<Rightarrow> Inr (a @ b)))"
  by (induction xs) (simp_all split: sum.split)

lemma template_loop_append:
  "template_loop eng m P (xs @ ys) d =
     (case template_loop eng m P xs d of Inl e \<Rightarrow> Inl e | Inr d' \<Rightarrow> template_loop eng m P ys d')"
proof (induction xs arbitrary: d)
  case Nil
  then show ?case by simp
next
  case (Cons x xs)
  obtain C mC where x: "x = (C, mC)" by (cases x)
  show ?case unfolding x append_Cons template_loop.simps Cons.IH
    by (simp add: Let_def split: option.split sum.split)
qed

lemma template_loop_other:
  "template_loop eng m P tmpl d = Inr res \<Longrightarrow> A \<notin> fst ` set tmpl \<Longrightarrow>
   map_of res A = map_of d A"
proof (induction tmpl arbitrary: d)
  case Nil
  then show ?case by simp
next
  case (Cons x tmpl)
  obtain C mC where x: "x = (C, mC)" by (cases x)
  with Cons.prems have CA: "C \<noteq> A" and rest: "A \<notin> fst ` set tmpl" by auto
  show ?case using Cons.prems(1) Cons.IH[OF _ rest] CA x
    by (auto simp: Let_def update_conv' split: option.splits sum.splits if_splits)
qed

lemma template_loop_untargeted:
  "template_loop eng m P tmpl d = Inr res \<Longrightarrow>
   list_all (\<lambda>(C, mC). C = A \<longrightarrow>
      (case map_of mC P of None \<Rightarrow> True | Some names \<Rightarrow> templates_of names = [])) tmpl \<Longrightarrow>
   map_of res A = map_of d A"
proof (induction tmpl arbitrary: d)
  case Nil
  then show ?case by simp
next
  case (Cons x tmpl)
  obtain C mC where x: "x = (C, mC)" by (cases x)
  from Cons.prems(2) have rest: "list_all (\<lambda>(C, mC). C = A \<longrightarrow>
      (case map_of mC P of None \<Rightarrow> True | Some names \<Rightarrow> templates_of names = [])) tmpl"
    by simp
  show ?case using Cons.prems Cons.IH[OF _ rest] x
    by (auto simp: Let_def update_conv' split: option.splits sum.splits if_splits)
qed

lemma template_loop_none:
  "list_all (\<lambda>(C, mC). case map_of mC P of None \<Rightarrow> True
      | Some names \<Rightarrow> templates_of names = []) tmpl \<Longrightarrow>
   template_loop eng m P tmpl d = Inr d"
proof (induction tmpl arbitrary: d)
  case Nil
  then show ?case by simp
next
  case (Cons x tmpl)
  obtain C mC where x: "x = (C, mC)" by (cases x)
  show ?case using Cons x
    by (auto simp: Let_def update_triv split: option.splits)
qed

section \<open>Template rendering failures (C1)\<close>

text \<open>
  Claim C1, as amended. Take a template \<open>t\<close> of a template attribute \<open>A\<close> that is mapped for
  the profile, reached with the internal record \<open>d\<close> after the plain pass and the earlier
  template attributes, the templates before it having rendered. If rendering \<open>t\<close> fails with
  \<open>NameError\<close> or \<open>TypeError\<close>, or gives a value that is not a string, the failure is caught
  inside \<open>render_attribute_template\<close>: the template produces zero values (the empty sequence
  among the rendered sequences), and when \<open>t\<close> is the only template of \<open>A\<close> the conversion
  goes on with the record unchanged. If rendering fails with any other exception, such as
  the \<open>ValueError\<close> of \<open>scope\<close> on a string without \<^verbatim>\<open>@\<close>, it is not caught: it leaves
  \<open>render_attribute_template\<close> and \<open>to_internal\<close> as it is.
\<close>

theorem render_failure_boundary:
  assumes tmpl: "template_attributes m = Some (pre @ (A, mapping) # post)"
      and P: "map_of mapping P = Some names"
      and split: "templates_of names = ts1 @ t # ts2"
      and plain: "to_internal_loop m P external_dict (from_internal_attributes m) [] = Inr d0"
      and pre: "template_loop eng m P pre d0 = Inr d"
      and earlier: "render_templates eng m ts1 d = Inr vss1"
      and compiled: "Template eng t = Inr tt"
  shows "(render eng tt d = Inl NameError \<or> render eng tt d = Inl TypeError \<or>
            (\<exists>v. render eng tt d = Inr v \<and> (\<forall>s. v \<noteq> PStr s)) \<longrightarrow>
          render_attribute_template eng m t d = Inr [] \<and>
          render_templates eng m (templates_of names) d =
            (case render_templates eng m ts2 d of
               Inl e \<Rightarrow> Inl e
             | Inr vss2 \<Rightarrow> Inr (vss1 @ [] # vss2)) \<and>
          (ts1 = [] \<and> ts2 = [] \<longrightarrow>
             to_internal eng m P external_dict = template_loop eng m P post d)) \<and>
         (\<forall>e. render eng tt d = Inl e \<and> e \<noteq> NameError \<and> e \<noteq> TypeError \<longrightarrow>
          render_attribute_template eng m t d = Inl e \<and>
          to_internal eng m P external_dict = Inl e)"
proof -
  have whole: "to_internal eng m P external_dict = template_loop eng m P ((A, mapping) # post) d"
    using tmpl plain pre
    by (simp add: to_internal_def handle_template_attributes_def template_loop_append)
  have caught: "render_attribute_template eng m t d = Inr [] \<and>
        render_templates eng m (templates_of names) d =
            (case render_templates eng m ts2 d of
               Inl e \<Rightarrow> Inl e
             | Inr vss2 \<Rightarrow> Inr (vss1 @ [] # vss2)) \<and>
        (ts1 = [] \<and> ts2 = [] \<longrightarrow>
             to_internal eng m P external_dict = template_loop eng m P post d)"
    if "render eng tt d = Inl NameError \<or> render eng tt d = Inl TypeError \<or>
            (\<exists>v. render eng tt d = Inr v \<and> (\<forall>s. v \<noteq> PStr s))"
  proof -
    from that compiled have r: "render_attribute_template eng m t d = Inr []"
      by (auto simp: render_attribute_template_def split: pyval.splits)
    have all: "render_templates eng m (templates_of names) d =
            (case render_templates eng m ts2 d of
               Inl e \<Rightarrow> Inl e
             | Inr vss2 \<Rightarrow> Inr (vss1 @ [] # vss2))"
      using earlier r by (simp add: split render_templates_append split: sum.split)
    have only: "to_internal eng m P external_dict = template_loop eng m P post d"
      if "ts1 = [] \<and> ts2 = []"
    proof -
      from that split have "templates_of names = [t]" by simp
      then have "template_loop eng m P ((A, mapping) # post) d = template_loop eng m P post d"
        using P r by (auto simp: Let_def update_triv split: option.splits)
      with whole show ?thesis by simp
    qed
    from r all only show ?thesis by blast
  qed
  have uncaught: "render_attribute_template eng m t d = Inl e \<and>
        to_internal eng m P external_dict = Inl e"
    if "render eng tt d = Inl e \<and> e \<noteq> NameError \<and> e \<noteq> TypeError" for e
  proof -
    from that compiled have r: "render_attribute_template eng m t d = Inl e"
      by (simp add: render_attribute_template_def)
    have "render_templates eng m (templates_of names) d = Inl e"
      using earlier r by (simp add: split render_templates_append)
    then have "template_loop eng m P ((A, mapping) # post) d = Inl e"
      using P by simp
    with r whole show ?thesis by simp
  qed
  from caught uncaught show ?thesis by blast
qed

text \<open>
  The theorem at work: the template \<^verbatim>\<open>${mail[0] | scope}\<close> of \<^verbatim>\<open>domain\<close>. Without a
  \<^verbatim>\<open>mail\<close> value the failure is a caught \<open>TypeError\<close> and \<^verbatim>\<open>name\<close> is converted as usual; with the
  unscoped value \<^verbatim>\<open>ann\<close> the \<open>ValueError\<close> reaches the caller.
\<close>

theorem render_failure_boundary_witness:
  "init [(''attributes'', [(''mail'', [(''p'', [''mail''])]), (''name'', [(''p'', [''cn''])])]),
         (''template_attributes'', [(''domain'', [(''p'', [''${mail[0] | scope}''])])])] =
     Inr \<lparr> separator = CHR ''.'', multivalue_separator = CHR '';'',
           from_internal_attributes = [(''mail'', [(''p'', [''mail''])]), (''name'', [(''p'', [''cn''])])],
           template_attributes = Some [(''domain'', [(''p'', [''${mail[0] | scope}''])])],
           to_internal_attributes = [(''p'', [(''mail'', ''mail''), (''cn'', ''name'')])] \<rparr> \<and>
   to_internal mako_engine
     \<lparr> separator = CHR ''.'', multivalue_separator = CHR '';'',
       from_internal_attributes = [(''mail'', [(''p'', [''mail''])]), (''name'', [(''p'', [''cn''])])],
       template_attributes = Some [(''domain'', [(''p'', [''${mail[0] | scope}''])])],
       to_internal_attributes = [(''p'', [(''mail'', ''mail''), (''cn'', ''name'')])] \<rparr>
     ''p'' [(''cn'', PList [PStr ''Ann''])] = Inr [(''name'', PList [PStr ''Ann''])] \<and>
   to_internal mako_engine
     \<lparr> separator = CHR ''.'', multivalue_separator = CHR '';'',
       from_internal_attributes = [(''mail'', [(''p'', [''mail''])]), (''name'', [(''p'', [''cn''])])],
       template_attributes = Some [(''domain'', [(''p'', [''${mail[0] | scope}''])])],
       to_internal_attributes = [(''p'', [(''mail'', ''mail''), (''cn'', ''name'')])] \<rparr>
     ''p'' [(''mail'', PList [PStr ''ann'']), (''cn'', PList [PStr ''Ann''])] = Inl ValueError"
proof -
  let ?cfg = "[(''mail'', [(''p'', [''mail''])]), (''name'', [(''p'', [''cn''])])]"
  let ?t = "''${mail[0] | scope}''"
  let ?m = "\<lparr> separator = CHR ''.'', multivalue_separator = CHR '';'',
     from_internal_attributes = ?cfg,
     template_attributes = Some [(''domain'', [(''p'', [?t])])],
     to_internal_attributes = [(''p'', [(''mail'', ''mail''), (''cn'', ''name'')])] \<rparr>"
  let ?tt = "MakoSubst [] ''mail'' 0 True []"
  let ?d1 = "[(''name'', PList [PStr ''Ann''])]"
  let ?d2 = "[(''mail'', PList [PStr ''ann'']), (''name'', PList [PStr ''Ann''])]"
  have i: "init [(''attributes'', ?cfg), (''template_attributes'', [(''domain'', [(''p'', [?t])])])] = Inr ?m"
    by (simp add: run_defs)
  have tmpl: "template_attributes ?m = Some ([] @ (''domain'', [(''p'', [?t])]) # [])" by simp
  have P: "map_of [(''p'', [?t])] ''p'' = Some [?t]" by simp
  have split: "templates_of [?t] = [] @ ?t # []" by (simp add: templates_of_def)
  have earlier1: "render_templates mako_engine ?m [] ?d1 = Inr []" by simp
  have earlier2: "render_templates mako_engine ?m [] ?d2 = Inr []" by simp
  have compiled: "Template mako_engine ?t = Inr ?tt" by (simp add: mako_defs)
  have plain1: "to_internal_loop ?m ''p'' [(''cn'', PList [PStr ''Ann''])]
      (from_internal_attributes ?m) [] = Inr ?d1"
    by (simp add: run_defs)
  have plain2: "to_internal_loop ?m ''p'' [(''mail'', PList [PStr ''ann'']), (''cn'', PList [PStr ''Ann''])]
      (from_internal_attributes ?m) [] = Inr ?d2"
    by (simp add: run_defs)
  have pre1: "template_loop mako_engine ?m ''p'' [] ?d1 = Inr ?d1" by simp
  have pre2: "template_loop mako_engine ?m ''p'' [] ?d2 = Inr ?d2" by simp
  have r1: "render mako_engine ?tt ?d1 = Inl TypeError" by (simp add: mako_defs)
  have r2: "render mako_engine ?tt ?d2 = Inl ValueError" by (simp add: mako_defs)
  from render_failure_boundary[OF tmpl P split plain1 pre1 earlier1 compiled] r1
  have a: "to_internal mako_engine ?m ''p'' [(''cn'', PList [PStr ''Ann''])] = Inr ?d1"
    by simp
  from render_failure_boundary[OF tmpl P split plain2 pre2 earlier2 compiled] r2
  have b: "to_internal mako_engine ?m ''p''
      [(''mail'', PList [PStr ''ann'']), (''cn'', PList [PStr ''Ann''])] = Inl ValueError"
    by simp
  from i a b show ?thesis by blast
qed

text \<open>
  The claim as stated fails: the scope-extraction error is not caught. The mapper is the
  one \<open>init\<close> builds from the configuration; the unscoped value \<^verbatim>\<open>nodomain\<close> makes
  \<open>to_internal\<close> raise \<open>ValueError\<close>.
\<close>

theorem scope_failure_propagates:
  "init [(''attributes'', [(''mail'', [(''p'', [''mail''])])]),
         (''template_attributes'', [(''domain'', [(''p'', [''${mail[0] | scope}''])])])] =
     Inr \<lparr> separator = CHR ''.'', multivalue_separator = CHR '';'',
           from_internal_attributes = [(''mail'', [(''p'', [''mail''])])],
           template_attributes = Some [(''domain'', [(''p'', [''${mail[0] | scope}''])])],
           to_internal_attributes = [(''p'', [(''mail'', ''mail'')])] \<rparr> \<and>
   to_internal mako_engine
     \<lparr> separator = CHR ''.'', multivalue_separator = CHR '';'',
       from_internal_attributes = [(''mail'', [(''p'', [''mail''])])],
       template_attributes = Some [(''domain'', [(''p'', [''${mail[0] | scope}''])])],
       to_internal_attributes = [(''p'', [(''mail'', ''mail'')])] \<rparr>
     ''p'' [(''mail'', PList [PStr ''nodomain''])] = Inl ValueError"
  by (simp add: run_defs mako_defs)

section \<open>Nested-path get (C2)\<close>

text \<open>
  Claim C2, as amended. For every dotted path and every nested external record,
  nested-path get goes through the record segment by segment. As long as every value in
  which a segment is looked up is a mapping, it does not raise: it returns the value the
  path names, and \<^verbatim>\<open>None\<close> (the missing signal) as soon as a segment is absent or bound to
  \<^verbatim>\<open>None\<close>. When a segment has to be looked up in a value that is not a mapping (a list, a
  string), the lookup raises \<open>AttributeError\<close>.
\<close>

theorem get_nested_on_mappings:
  "(mapping_path (str_split (separator m) nested_key) (PDict data) \<longrightarrow>
      get_nested_attribute_value m nested_key data =
        Inr (case lookup_path (str_split (separator m) nested_key) (PDict data) of
               None \<Rightarrow> PNone
             | Some v \<Rightarrow> v)) \<and>
   (\<not> mapping_path (str_split (separator m) nested_key) (PDict data) \<longrightarrow>
      get_nested_attribute_value m nested_key data = Inl AttributeError)"
  by (simp add: get_nested_attribute_value_def nested_walk_mapping nested_walk_not_mapping)

theorem get_nested_on_mappings_witness:
  "get_nested_attribute_value
     \<lparr> separator = CHR ''.'', multivalue_separator = CHR '';'', from_internal_attributes = [],
       template_attributes = None, to_internal_attributes = [] \<rparr>
     ''address.street_address''
     [(''address'', PDict [(''street_address'', PList [PStr ''Main St''])])] =
     Inr (PList [PStr ''Main St'']) \<and>
   get_nested_attribute_value
     \<lparr> separator = CHR ''.'', multivalue_separator = CHR '';'', from_internal_attributes = [],
       template_attributes = None, to_internal_attributes = [] \<rparr>
     ''address.zip.code''
     [(''address'', PDict [(''street_address'', PList [PStr ''Main St''])])] = Inr PNone \<and>
   get_nested_attribute_value
     \<lparr> separator = CHR ''.'', multivalue_separator = CHR '';'', from_internal_attributes = [],
       template_attributes = None, to_internal_attributes = [] \<rparr>
     ''name.first'' [(''name'', PStr ''Ann'')] = Inl AttributeError"
proof -
  let ?m = "\<lparr> separator = CHR ''.'', multivalue_separator = CHR '';'',
     from_internal_attributes = [], template_attributes = None, to_internal_attributes = [] \<rparr>"
  let ?rec = "[(''address'', PDict [(''street_address'', PList [PStr ''Main St''])])]"
  from get_nested_on_mappings[of ?m "''address.street_address''" ?rec]
  have a: "get_nested_attribute_value ?m ''address.street_address'' ?rec =
      Inr (PList [PStr ''Main St''])"
    by simp
  from get_nested_on_mappings[of ?m "''address.zip.code''" ?rec]
  have b: "get_nested_attribute_value ?m ''address.zip.code'' ?rec = Inr PNone"
    by simp
  from get_nested_on_mappings[of ?m "''name.first''" "[(''name'', PStr ''Ann'')]"]
  have c: "get_nested_attribute_value ?m ''name.first'' [(''name'', PStr ''Ann'')] =
      Inl AttributeError"
    by simp
  from a b c show ?thesis by blast
qed

text \<open>
  The claim as stated fails on an intermediate value that is a list: the mapper built from
  an empty configuration raises \<open>AttributeError\<close> for the path \<^verbatim>\<open>address.street_address\<close> in
  the record \<^verbatim>\<open>{"address": ["Main St"]}\<close>.
\<close>

theorem get_nested_raises_on_list:
  "init [(''attributes'', [])] =
     Inr \<lparr> separator = CHR ''.'', multivalue_separator = CHR '';'', from_internal_attributes = [],
           template_attributes = None, to_internal_attributes = [] \<rparr> \<and>
   get_nested_attribute_value
     \<lparr> separator = CHR ''.'', multivalue_separator = CHR '';'', from_internal_attributes = [],
       template_attributes = None, to_internal_attributes = [] \<rparr>
     ''address.street_address'' [(''address'', PList [PStr ''Main St''])] = Inl AttributeError"
  by (simp add: run_defs)

section \<open>The lookup tables after construction (C3)\<close>

text \<open>
  Claim C3 does not hold of the code. \<open>to_internal_attributes\<close> is a \<^verbatim>\<open>defaultdict\<close>, so
  the read \<^verbatim>\<open>self.to_internal_attributes[attribute_profile]\<close> in \<open>to_internal_filter\<close> stores an
  empty table under a profile that has none: the call below returns no names and leaves
  the mapper with the new entry \<^verbatim>\<open>nonexistent\<close>. The handler \<^verbatim>\<open>except KeyError\<close> written for
  the unknown profile never runs.
\<close>

theorem to_internal_filter_grows_table:
  "init [(''attributes'', [(''mail'', [(''saml'', [''email''])])])] =
     Inr \<lparr> separator = CHR ''.'', multivalue_separator = CHR '';'',
           from_internal_attributes = [(''mail'', [(''saml'', [''email''])])],
           template_attributes = None,
           to_internal_attributes = [(''saml'', [(''email'', ''mail'')])] \<rparr> \<and>
   to_internal_filter
     \<lparr> separator = CHR ''.'', multivalue_separator = CHR '';'',
       from_internal_attributes = [(''mail'', [(''saml'', [''email''])])],
       template_attributes = None,
       to_internal_attributes = [(''saml'', [(''email'', ''mail'')])] \<rparr>
     ''nonexistent'' [''email''] =
     ([], \<lparr> separator = CHR ''.'', multivalue_separator = CHR '';'',
            from_internal_attributes = [(''mail'', [(''saml'', [''email''])])],
            template_attributes = None,
            to_internal_attributes =
              [(''saml'', [(''email'', ''mail'')]), (''nonexistent'', [])] \<rparr>)"
  by (simp add: run_defs)

section \<open>Collation (C4)\<close>

text \<open>
  Claim C4, as amended. For every ordered candidate list and every external record in
  which each candidate's traversal returns: the resolved values are collated in candidate
  order into one flat sequence, where a list is spread in place, any other value is
  appended when it is truthy, and a missing value or a falsy value that is not a list (the
  empty string, an empty mapping, zero) adds nothing.
\<close>

theorem collate_contributions:
  "map (\<lambda>n. get_nested_attribute_value m n data) attribute_names = map Inr vals \<Longrightarrow>
   collate_attribute_values_by_priority_order m attribute_names data =
     Inr (concat (map contribution vals))"
  by (simp add: collate_attribute_values_by_priority_order_def collate_loop_contribution)

theorem collate_contributions_witness:
  "collate_attribute_values_by_priority_order
     \<lparr> separator = CHR ''.'', multivalue_separator = CHR '';'', from_internal_attributes = [],
       template_attributes = None, to_internal_attributes = [] \<rparr>
     [''x'', ''y'', ''z'', ''w'']
     [(''x'', PList [PStr ''a'', PStr ''b'']), (''y'', PStr ''c''), (''z'', PStr [])] =
     Inr [PStr ''a'', PStr ''b'', PStr ''c'']"
proof -
  let ?m = "\<lparr> separator = CHR ''.'', multivalue_separator = CHR '';'',
     from_internal_attributes = [], template_attributes = None, to_internal_attributes = [] \<rparr>"
  let ?data = "[(''x'', PList [PStr ''a'', PStr ''b'']), (''y'', PStr ''c''), (''z'', PStr [])]"
  have h: "map (\<lambda>n. get_nested_attribute_value ?m n ?data) [''x'', ''y'', ''z'', ''w''] =
      map Inr [PList [PStr ''a'', PStr ''b''], PStr ''c'', PStr [], PNone]"
    by (simp add: get_nested_attribute_value_def)
  from collate_contributions[OF h] show ?thesis by simp
qed

text \<open>
  The claim as stated fails on the empty string: it is present and not a list, and it is
  not appended.
\<close>

theorem collate_drops_empty_string:
  "get_nested_attribute_value
     \<lparr> separator = CHR ''.'', multivalue_separator = CHR '';'', from_internal_attributes = [],
       template_attributes = None, to_internal_attributes = [] \<rparr>
     ''x'' [(''x'', PStr [])] = Inr (PStr []) \<and>
   collate_attribute_values_by_priority_order
     \<lparr> separator = CHR ''.'', multivalue_separator = CHR '';'', from_internal_attributes = [],
       template_attributes = None, to_internal_attributes = [] \<rparr>
     [''x''] [(''x'', PStr [])] = Inr []"
  by (simp add: run_defs)

section \<open>Round trip on an aligned configuration (C5)\<close>

text \<open>
  Claim C5, as amended. For every profile \<open>P\<close>, internal attribute \<open>A\<close> and value \<open>v\<close>: if the
  configuration maps \<open>A\<close> to the single external name \<open>X\<close> for \<open>P\<close>, \<open>X\<close> holds no separator,
  every other candidate list for \<open>P\<close> in the configuration names only paths whose first
  segment is not \<open>X\<close>, and no template attribute has a template for \<open>P\<close>, then
  \<open>from_internal\<close> turns \<^verbatim>\<open>{A: [v]}\<close> into \<^verbatim>\<open>{X: [v]}\<close> and \<open>to_internal\<close> turns that back
  into \<^verbatim>\<open>{A: [v]}\<close>.
\<close>

theorem round_trip_aligned:
  assumes A: "map_of (from_internal_attributes m) A = Some mapping"
      and P: "map_of mapping P = Some [X]"
      and sep: "separator m \<notin> set X"
      and others: "list_all (\<lambda>(B, mB). case map_of mB P of None \<Rightarrow> True
            | Some names \<Rightarrow> (B = A \<and> names = [X]) \<or>
                list_all (\<lambda>n. first_segment m n \<noteq> X) names)
            (from_internal_attributes m)"
      and no_templates: "case template_attributes m of None \<Rightarrow> True
            | Some tmpl \<Rightarrow> list_all (\<lambda>(C, mC).
                case map_of mC P of None \<Rightarrow> True | Some names \<Rightarrow> templates_of names = []) tmpl"
  shows "from_internal m P [(A, PList [v])] = Inr [(X, PList [v])] \<and>
         to_internal eng m P [(X, PList [v])] = Inr [(A, PList [v])]"
proof
  show "from_internal m P [(A, PList [v])] = Inr [(X, PList [v])]"
    using A P sep by (simp add: from_internal_def)
next
  from map_of_SomeD[OF A] P
  have ex: "list_ex (\<lambda>(B, mB). map_of mB P = Some [X]) (from_internal_attributes m)"
    by (auto simp: list_ex_iff)
  have plain: "to_internal_loop m P [(X, PList [v])] (from_internal_attributes m) [] =
      Inr [(A, PList [v])]"
    using round_trip_loop[OF sep others, of v "[]"] ex by simp
  have "handle_template_attributes eng m P [(A, PList [v])] = Inr [(A, PList [v])]"
    using no_templates
    by (auto simp: handle_template_attributes_def template_loop_none split: option.splits)
  with plain show "to_internal eng m P [(X, PList [v])] = Inr [(A, PList [v])]"
    by (simp add: to_internal_def)
qed

theorem round_trip_aligned_witness:
  "from_internal
     \<lparr> separator = CHR ''.'', multivalue_separator = CHR '';'',
       from_internal_attributes =
         [(''mail'', [(''saml'', [''email''])]),
          (''name'', [(''saml'', [''cn'', ''name.full'']), (''oidc'', [''email''])])],
       template_attributes = None,
       to_internal_attributes =
         [(''saml'', [(''email'', ''mail''), (''cn'', ''name''), (''name.full'', ''name'')]),
          (''oidc'', [(''email'', ''name'')])] \<rparr>
     ''saml'' [(''mail'', PList [PStr ''a@b''])] = Inr [(''email'', PList [PStr ''a@b''])] \<and>
   to_internal mako_engine
     \<lparr> separator = CHR ''.'', multivalue_separator = CHR '';'',
       from_internal_attributes =
         [(''mail'', [(''saml'', [''email''])]),
          (''name'', [(''saml'', [''cn'', ''name.full'']), (''oidc'', [''email''])])],
       template_attributes = None,
       to_internal_attributes =
         [(''saml'', [(''email'', ''mail''), (''cn'', ''name''), (''name.full'', ''name'')]),
          (''oidc'', [(''email'', ''name'')])] \<rparr>
     ''saml'' [(''email'', PList [PStr ''a@b''])] = Inr [(''mail'', PList [PStr ''a@b''])]"
proof -
  let ?cfg = "[(''mail'', [(''saml'', [''email''])]),
               (''name'', [(''saml'', [''cn'', ''name.full'']), (''oidc'', [''email''])])]"
  let ?m = "\<lparr> separator = CHR ''.'', multivalue_separator = CHR '';'',
     from_internal_attributes = ?cfg, template_attributes = None,
     to_internal_attributes =
       [(''saml'', [(''email'', ''mail''), (''cn'', ''name''), (''name.full'', ''name'')]),
        (''oidc'', [(''email'', ''name'')])] \<rparr>"
  have A: "map_of (from_internal_attributes ?m) ''mail'' = Some [(''saml'', [''email''])]"
    by simp
  have P: "map_of [(''saml'', [''email''])] ''saml'' = Some [''email'']" by simp
  have sep: "separator ?m \<notin> set ''email''" by simp
  have others: "list_all (\<lambda>(B, mB). case map_of mB ''saml'' of None \<Rightarrow> True
            | Some names \<Rightarrow> (B = ''mail'' \<and> names = [''email'']) \<or>
                list_all (\<lambda>n. first_segment ?m n \<noteq> ''email'') names)
            (from_internal_attributes ?m)"
    by (simp add: first_segment_def)
  have nt: "case template_attributes ?m of None \<Rightarrow> True
            | Some tmpl \<Rightarrow> list_all (\<lambda>(C, mC).
                case map_of mC ''saml'' of None \<Rightarrow> True
                | Some names \<Rightarrow> templates_of names = []) tmpl"
    by simp
  from round_trip_aligned[OF A P sep others nt, of "PStr ''a@b''" mako_engine]
  show ?thesis .
qed

text \<open>
  The claim as stated fails when an earlier internal attribute lists the same external
  name: the inverse table maps \<^verbatim>\<open>X\<close> back to \<^verbatim>\<open>A\<close> (the last writer), there is no template
  attribute, and the round trip of \<^verbatim>\<open>{A: [v]}\<close> returns \<^verbatim>\<open>{B: [v], A: [v]}\<close>.
\<close>

theorem round_trip_shared_name:
  "init [(''attributes'', [(''B'', [(''p'', [''X''])]), (''A'', [(''p'', [''X''])])])] =
     Inr \<lparr> separator = CHR ''.'', multivalue_separator = CHR '';'',
           from_internal_attributes = [(''B'', [(''p'', [''X''])]), (''A'', [(''p'', [''X''])])],
           template_attributes = None,
           to_internal_attributes = [(''p'', [(''X'', ''A'')])] \<rparr> \<and>
   from_internal
     \<lparr> separator = CHR ''.'', multivalue_separator = CHR '';'',
       from_internal_attributes = [(''B'', [(''p'', [''X''])]), (''A'', [(''p'', [''X''])])],
       template_attributes = None,
       to_internal_attributes = [(''p'', [(''X'', ''A'')])] \<rparr>
     ''p'' [(''A'', PList [PStr ''v''])] = Inr [(''X'', PList [PStr ''v''])] \<and>
   to_internal mako_engine
     \<lparr> separator = CHR ''.'', multivalue_separator = CHR '';'',
       from_internal_attributes = [(''B'', [(''p'', [''X''])]), (''A'', [(''p'', [''X''])])],
       template_attributes = None,
       to_internal_attributes = [(''p'', [(''X'', ''A'')])] \<rparr>
     ''p'' [(''X'', PList [PStr ''v''])] =
     Inr [(''B'', PList [PStr ''v'']), (''A'', PList [PStr ''v''])]"
  by (simp add: run_defs)

section \<open>Nested path round trip (C6)\<close>

text \<open>
  Claim C6. With the configuration that maps \<^verbatim>\<open>street\<close> to \<^verbatim>\<open>address.street_address\<close> for
  a profile \<open>P\<close>, \<open>to_internal\<close> turns \<^verbatim>\<open>{"address": {"street_address": ["Main St"]}}\<close> into
  \<^verbatim>\<open>{"street": ["Main St"]}\<close>, and \<open>from_internal\<close> turns \<^verbatim>\<open>{"street": ["Main St"]}\<close> into
  \<^verbatim>\<open>{"address": {"street_address": ["Main St"]}}\<close>: the nested structure is built from the
  segments after the first and stored under the first. This holds for every profile
  name and every template engine.
\<close>

theorem nested_path_round_trip:
  "init [(''attributes'', [(''street'', [(P, [''address.street_address''])])])] =
     Inr \<lparr> separator = CHR ''.'', multivalue_separator = CHR '';'',
           from_internal_attributes = [(''street'', [(P, [''address.street_address''])])],
           template_attributes = None,
           to_internal_attributes = [(P, [(''address.street_address'', ''street'')])] \<rparr> \<and>
   to_internal eng
     \<lparr> separator = CHR ''.'', multivalue_separator = CHR '';'',
       from_internal_attributes = [(''street'', [(P, [''address.street_address''])])],
       template_attributes = None,
       to_internal_attributes = [(P, [(''address.street_address'', ''street'')])] \<rparr>
     P [(''address'', PDict [(''street_address'', PList [PStr ''Main St''])])] =
     Inr [(''street'', PList [PStr ''Main St''])] \<and>
   from_internal
     \<lparr> separator = CHR ''.'', multivalue_separator = CHR '';'',
       from_internal_attributes = [(''street'', [(P, [''address.street_address''])])],
       template_attributes = None,
       to_internal_attributes = [(P, [(''address.street_address'', ''street'')])] \<rparr>
     P [(''street'', PList [PStr ''Main St''])] =
     Inr [(''address'', PDict [(''street_address'', PList [PStr ''Main St''])])]"
  by (simp add: run_defs)

theorem nested_path_round_trip_witness:
  "to_internal mako_engine
     \<lparr> separator = CHR ''.'', multivalue_separator = CHR '';'',
       from_internal_attributes = [(''street'', [(''openid'', [''address.street_address''])])],
       template_attributes = None,
       to_internal_attributes = [(''openid'', [(''address.street_address'', ''street'')])] \<rparr>
     ''openid'' [(''address'', PDict [(''street_address'', PList [PStr ''Main St''])])] =
     Inr [(''street'', PList [PStr ''Main St''])] \<and>
   from_internal
     \<lparr> separator = CHR ''.'', multivalue_separator = CHR '';'',
       from_internal_attributes = [(''street'', [(''openid'', [''address.street_address''])])],
       template_attributes = None,
       to_internal_attributes = [(''openid'', [(''address.street_address'', ''street'')])] \<rparr>
     ''openid'' [(''street'', PList [PStr ''Main St''])] =
     Inr [(''address'', PDict [(''street_address'', PList [PStr ''Main St''])])]"
  using nested_path_round_trip[of "''openid''" mako_engine] by blast

section \<open>Priority collation (C7)\<close>

text \<open>
  Claim C7, as amended. For every profile \<open>P\<close> and internal attribute \<open>A\<close> whose candidate
  list for \<open>P\<close> is \<open>[X, Y]\<close> (the configuration being a dictionary, its keys are distinct): if
  the external record resolves \<open>X\<close> and \<open>Y\<close> to the lists \<open>xs\<close> and \<open>ys\<close>, not both empty, no
  template attribute has a template for \<open>A\<close> under \<open>P\<close>, and \<open>to_internal\<close> returns, then the
  result maps \<open>A\<close> to the values of \<open>X\<close> followed by the values of \<open>Y\<close>.
\<close>

theorem priority_collation:
  assumes dist: "distinct (map fst (from_internal_attributes m))"
      and A: "map_of (from_internal_attributes m) A = Some mapping"
      and P: "map_of mapping P = Some [X, Y]"
      and X: "get_nested_attribute_value m X external_dict = Inr (PList xs)"
      and Y: "get_nested_attribute_value m Y external_dict = Inr (PList ys)"
      and nonempty: "xs @ ys \<noteq> []"
      and untargeted: "case template_attributes m of None \<Rightarrow> True
            | Some tmpl \<Rightarrow> list_all (\<lambda>(C, mC). C = A \<longrightarrow>
                (case map_of mC P of None \<Rightarrow> True | Some names \<Rightarrow> templates_of names = [])) tmpl"
      and res: "to_internal eng m P external_dict = Inr res"
  shows "map_of res A = Some (PList (xs @ ys))"
proof -
  from res obtain d0 where
    plain: "to_internal_loop m P external_dict (from_internal_attributes m) [] = Inr d0"
    and handle: "handle_template_attributes eng m P d0 = Inr res"
    by (auto simp: to_internal_def split: sum.splits)
  have "collate_attribute_values_by_priority_order m [X, Y] external_dict = Inr (xs @ ys)"
    using collate_loop_contribution[of m external_dict "[X, Y]" "[PList xs, PList ys]" "[]"] X Y
    by (simp add: collate_attribute_values_by_priority_order_def)
  from to_internal_loop_hit[OF plain dist map_of_SomeD[OF A] P this nonempty]
  have d0: "map_of d0 A = Some (PList (xs @ ys))" .
  have "map_of res A = map_of d0 A"
  proof (cases "template_attributes m")
    case None
    with handle show ?thesis by (simp add: handle_template_attributes_def)
  next
    case (Some tmpl)
    show ?thesis
    proof (cases "tmpl = []")
      case True
      with Some handle show ?thesis by (simp add: handle_template_attributes_def)
    next
      case False
      with Some handle have "template_loop eng m P tmpl d0 = Inr res"
        by (simp add: handle_template_attributes_def)
      from template_loop_untargeted[OF this] untargeted Some show ?thesis by simp
    qed
  qed
  with d0 show ?thesis by simp
qed

theorem priority_collation_witness:
  "to_internal mako_engine
     \<lparr> separator = CHR ''.'', multivalue_separator = CHR '';'',
       from_internal_attributes = [(''mail'', [(''p'', [''email'', ''contact.mail''])])],
       template_attributes = None,
       to_internal_attributes = [(''p'', [(''email'', ''mail''), (''contact.mail'', ''mail'')])] \<rparr>
     ''p''
     [(''email'', PList [PStr ''a'', PStr ''b'']),
      (''contact'', PDict [(''mail'', PList [PStr ''c''])])] =
     Inr [(''mail'', PList [PStr ''a'', PStr ''b'', PStr ''c''])] \<and>
   map_of [(''mail'', PList [PStr ''a'', PStr ''b'', PStr ''c''])] ''mail'' =
     Some (PList ([PStr ''a'', PStr ''b''] @ [PStr ''c'']))"
proof -
  let ?cfg = "[(''mail'', [(''p'', [''email'', ''contact.mail''])])]"
  let ?m = "\<lparr> separator = CHR ''.'', multivalue_separator = CHR '';'',
     from_internal_attributes = ?cfg, template_attributes = None,
     to_internal_attributes = [(''p'', [(''email'', ''mail''), (''contact.mail'', ''mail'')])] \<rparr>"
  let ?rec = "[(''email'', PList [PStr ''a'', PStr ''b'']),
               (''contact'', PDict [(''mail'', PList [PStr ''c''])])]"
  let ?res = "[(''mail'', PList [PStr ''a'', PStr ''b'', PStr ''c''])]"
  have dist: "distinct (map fst (from_internal_attributes ?m))" by simp
  have A: "map_of (from_internal_attributes ?m) ''mail'' =
      Some [(''p'', [''email'', ''contact.mail''])]"
    by simp
  have P: "map_of [(''p'', [''email'', ''contact.mail''])] ''p'' =
      Some [''email'', ''contact.mail'']"
    by simp
  have X: "get_nested_attribute_value ?m ''email'' ?rec = Inr (PList [PStr ''a'', PStr ''b''])"
    by (simp add: run_defs)
  have Y: "get_nested_attribute_value ?m ''contact.mail'' ?rec = Inr (PList [PStr ''c''])"
    by (simp add: run_defs)
  have ne: "[PStr ''a'', PStr ''b''] @ [PStr ''c''] \<noteq> []" by simp
  have ut: "case template_attributes ?m of None \<Rightarrow> True
            | Some tmpl \<Rightarrow> list_all (\<lambda>(C, mC). C = ''mail'' \<longrightarrow>
                (case map_of mC ''p'' of None \<Rightarrow> True
                 | Some names \<Rightarrow> templates_of names = [])) tmpl"
    by simp
  have res: "to_internal mako_engine ?m ''p'' ?rec = Inr ?res" by (simp add: run_defs)
  from priority_collation[OF dist A P X Y ne ut res]
  have "map_of ?res ''mail'' = Some (PList ([PStr ''a'', PStr ''b''] @ [PStr ''c'']))" .
  with res show ?thesis by blast
qed

text \<open>
  The claim as stated fails when a template attribute targets \<open>A\<close>: the record supplies
  \<^verbatim>\<open>["a"]\<close> for \<^verbatim>\<open>email\<close> and \<^verbatim>\<open>["b"]\<close> for \<^verbatim>\<open>mail\<close>, and the output of the template
  \<^verbatim>\<open>${mail[0]}\<close> replaces the collated \<^verbatim>\<open>["a", "b"]\<close> by \<^verbatim>\<open>["a"]\<close>.
\<close>

theorem priority_collation_template_override:
  "init [(''attributes'', [(''mail'', [(''p'', [''email'', ''mail''])])]),
         (''template_attributes'', [(''mail'', [(''p'', [''${mail[0]}''])])])] =
     Inr \<lparr> separator = CHR ''.'', multivalue_separator = CHR '';'',
           from_internal_attributes = [(''mail'', [(''p'', [''email'', ''mail''])])],
           template_attributes = Some [(''mail'', [(''p'', [''${mail[0]}''])])],
           to_internal_attributes = [(''p'', [(''email'', ''mail''), (''mail'', ''mail'')])] \<rparr> \<and>
   get_nested_attribute_value
     \<lparr> separator = CHR ''.'', multivalue_separator = CHR '';'',
       from_internal_attributes = [(''mail'', [(''p'', [''email'', ''mail''])])],
       template_attributes = Some [(''mail'', [(''p'', [''${mail[0]}''])])],
       to_internal_attributes = [(''p'', [(''email'', ''mail''), (''mail'', ''mail'')])] \<rparr>
     ''email'' [(''email'', PList [PStr ''a'']), (''mail'', PList [PStr ''b''])] =
     Inr (PList [PStr ''a'']) \<and>
   get_nested_attribute_value
     \<lparr> separator = CHR ''.'', multivalue_separator = CHR '';'',
       from_internal_attributes = [(''mail'', [(''p'', [''email'', ''mail''])])],
       template_attributes = Some [(''mail'', [(''p'', [''${mail[0]}''])])],
       to_internal_attributes = [(''p'', [(''email'', ''mail''), (''mail'', ''mail'')])] \<rparr>
     ''mail'' [(''email'', PList [PStr ''a'']), (''mail'', PList [PStr ''b''])] =
     Inr (PList [PStr ''b'']) \<and>
   to_internal mako_engine
     \<lparr> separator = CHR ''.'', multivalue_separator = CHR '';'',
       from_internal_attributes = [(''mail'', [(''p'', [''email'', ''mail''])])],
       template_attributes = Some [(''mail'', [(''p'', [''${mail[0]}''])])],
       to_internal_attributes = [(''p'', [(''email'', ''mail''), (''mail'', ''mail'')])] \<rparr>
     ''p'' [(''email'', PList [PStr ''a'']), (''mail'', PList [PStr ''b''])] =
     Inr [(''mail'', PList [PStr ''a''])]"
  by (simp add: run_defs mako_defs)

section \<open>Template fallback (C8)\<close>

text \<open>
  Claim C8. Let \<open>A\<close> be a template attribute with a mapping for the profile (the template
  attributes being a dictionary, their keys are distinct), let \<open>d0\<close> be the record of the
  plain pass and \<open>res\<close> the record \<open>handle_template_attributes\<close> returns. The templates of \<open>A\<close>
  are rendered against the record \<open>d\<close> reached after the template attributes before \<open>A\<close>,
  which still holds the plain value of \<open>A\<close>. If the concatenation of the rendered sequences
  is empty, \<open>res\<close> holds under \<open>A\<close> exactly what the plain pass left there (a value or
  nothing); if it is not empty, \<open>res\<close> holds the concatenation under \<open>A\<close> in place of the plain
  value. So the key appears anew only with a non-empty value.
\<close>

theorem template_fallback:
  assumes tmpl: "template_attributes m = Some (pre @ (A, mapping) # post)"
      and dist: "distinct (map fst (pre @ (A, mapping) # post))"
      and P: "map_of mapping P = Some names"
      and res: "handle_template_attributes eng m P d0 = Inr res"
  shows "\<exists>d vss. template_loop eng m P pre d0 = Inr d \<and> map_of d A = map_of d0 A \<and>
           render_templates eng m (templates_of names) d = Inr vss \<and>
           map_of res A = (if concat vss = [] then map_of d0 A else Some (PList (concat vss)))"
proof -
  from tmpl res have loop: "template_loop eng m P (pre @ (A, mapping) # post) d0 = Inr res"
    by (simp add: handle_template_attributes_def)
  then obtain d where d: "template_loop eng m P pre d0 = Inr d"
    and step: "template_loop eng m P ((A, mapping) # post) d = Inr res"
    by (auto simp: template_loop_append split: sum.splits)
  from dist have Apre: "A \<notin> fst ` set pre" and Apost: "A \<notin> fst ` set post" by auto
  from template_loop_other[OF d Apre] have dA: "map_of d A = map_of d0 A" .
  from step P obtain vss where vss: "render_templates eng m (templates_of names) d = Inr vss"
    by (auto split: sum.splits)
  define av where "av = (if concat vss \<noteq> [] then PList (concat vss)
                         else (case map_of d A of None \<Rightarrow> PNone | Some v \<Rightarrow> v))"
  define d1 where "d1 = (if truthy av then AList.update A av d else d)"
  from step P vss have post: "template_loop eng m P post d1 = Inr res"
    by (auto simp: d1_def av_def Let_def simp del: concat_eq_Nil_conv split: if_splits)
  from template_loop_other[OF post Apost] have resA: "map_of res A = map_of d1 A" .
  have "map_of d1 A = (if concat vss = [] then map_of d A else Some (PList (concat vss)))"
    by (auto simp: d1_def av_def update_conv' split: option.splits)
  with resA dA d vss show ?thesis by auto
qed

text \<open>
  The theorem at work on the template \<^verbatim>\<open>${mail[0] | scope}\<close> of \<^verbatim>\<open>domain\<close>: without a \<^verbatim>\<open>mail\<close>
  value the plain value \<^verbatim>\<open>plain.org\<close> stays, with \<^verbatim>\<open>ann@b.org\<close> it is replaced by \<^verbatim>\<open>b.org\<close>.
\<close>

theorem template_fallback_witness:
  "handle_template_attributes mako_engine
     \<lparr> separator = CHR ''.'', multivalue_separator = CHR '';'',
       from_internal_attributes = [(''mail'', [(''p'', [''mail''])]), (''domain'', [(''p'', [''dom''])])],
       template_attributes = Some [(''domain'', [(''p'', [''${mail[0] | scope}''])])],
       to_internal_attributes = [(''p'', [(''mail'', ''mail''), (''dom'', ''domain'')])] \<rparr>
     ''p'' [(''domain'', PList [PStr ''plain.org''])] =
     Inr [(''domain'', PList [PStr ''plain.org''])] \<and>
   handle_template_attributes mako_engine
     \<lparr> separator = CHR ''.'', multivalue_separator = CHR '';'',
       from_internal_attributes = [(''mail'', [(''p'', [''mail''])]), (''domain'', [(''p'', [''dom''])])],
       template_attributes = Some [(''domain'', [(''p'', [''${mail[0] | scope}''])])],
       to_internal_attributes = [(''p'', [(''mail'', ''mail''), (''dom'', ''domain'')])] \<rparr>
     ''p'' [(''mail'', PList [PStr ''ann@b.org'']), (''domain'', PList [PStr ''plain.org''])] =
     Inr [(''mail'', PList [PStr ''ann@b.org'']), (''domain'', PList [PStr ''b.org''])]"
proof -
  let ?t = "''${mail[0] | scope}''"
  let ?m = "\<lparr> separator = CHR ''.'', multivalue_separator = CHR '';'',
     from_internal_attributes = [(''mail'', [(''p'', [''mail''])]), (''domain'', [(''p'', [''dom''])])],
     template_attributes = Some [(''domain'', [(''p'', [?t])])],
     to_internal_attributes = [(''p'', [(''mail'', ''mail''), (''dom'', ''domain'')])] \<rparr>"
  let ?d1 = "[(''domain'', PList [PStr ''plain.org''])]"
  let ?d2 = "[(''mail'', PList [PStr ''ann@b.org'']), (''domain'', PList [PStr ''plain.org''])]"
  let ?r2 = "[(''mail'', PList [PStr ''ann@b.org'']), (''domain'', PList [PStr ''b.org''])]"
  have tmpl: "template_attributes ?m = Some ([] @ (''domain'', [(''p'', [?t])]) # [])" by simp
  have dist: "distinct (map fst ([] @ (''domain'', [(''p'', [?t])]) # []))" by simp
  have P: "map_of [(''p'', [?t])] ''p'' = Some [?t]" by simp
  have h1: "handle_template_attributes mako_engine ?m ''p'' ?d1 = Inr ?d1"
    by (simp add: run_defs mako_defs)
  have h2: "handle_template_attributes mako_engine ?m ''p'' ?d2 = Inr ?r2"
    by (simp add: run_defs mako_defs)
  have v1: "render_templates mako_engine ?m (templates_of [?t]) ?d1 = Inr [[]]"
    by (simp add: run_defs mako_defs)
  have v2: "render_templates mako_engine ?m (templates_of [?t]) ?d2 = Inr [[PStr ''b.org'']]"
    by (simp add: run_defs mako_defs)
  from template_fallback[OF tmpl dist P h1] v1
  have a: "map_of ?d1 ''domain'' = Some (PList [PStr ''plain.org''])" by simp
  from template_fallback[OF tmpl dist P h2] v2
  have b: "map_of ?r2 ''domain'' = Some (PList [PStr ''b.org''])" by simp
  from a b h1 h2 show ?thesis by blast
qed

section \<open>The filter (C9)\<close>

text \<open>
  Claim C9. \<open>to_internal_filter\<close> has no exceptional result. For a profile that the inverse
  table does not hold it returns the empty list, for every list of external names. In
  general its result has no duplicates and holds exactly the internal names that some
  supplied external name resolves to in the table of the profile.
\<close>

theorem to_internal_filter_names:
  "(map_of (to_internal_attributes m) P = None \<longrightarrow> fst (to_internal_filter m P names) = []) \<and>
   distinct (fst (to_internal_filter m P names)) \<and>
   set (fst (to_internal_filter m P names)) =
     {i. \<exists>e \<in> set names. \<exists>pm. map_of (to_internal_attributes m) P = Some pm \<and>
           map_of pm e = Some i}"
  by (auto simp: to_internal_filter_def dd_getitem_def filter_loop_set filter_loop_distinct
      filter_loop_empty split: option.splits)

theorem to_internal_filter_names_witness:
  "fst (to_internal_filter
     \<lparr> separator = CHR ''.'', multivalue_separator = CHR '';'',
       from_internal_attributes =
         [(''mail'', [(''saml'', [''email'', ''mail''])]), (''name'', [(''saml'', [''cn''])])],
       template_attributes = None,
       to_internal_attributes =
         [(''saml'', [(''email'', ''mail''), (''mail'', ''mail''), (''cn'', ''name'')])] \<rparr>
     ''oidc'' [''email'', ''cn'']) = [] \<and>
   set (fst (to_internal_filter
     \<lparr> separator = CHR ''.'', multivalue_separator = CHR '';'',
       from_internal_attributes =
         [(''mail'', [(''saml'', [''email'', ''mail''])]), (''name'', [(''saml'', [''cn''])])],
       template_attributes = None,
       to_internal_attributes =
         [(''saml'', [(''email'', ''mail''), (''mail'', ''mail''), (''cn'', ''name'')])] \<rparr>
     ''saml'' [''email'', ''mail'', ''cn'', ''zzz''])) = {''mail'', ''name''}"
proof -
  let ?m = "\<lparr> separator = CHR ''.'', multivalue_separator = CHR '';'',
     from_internal_attributes =
       [(''mail'', [(''saml'', [''email'', ''mail''])]), (''name'', [(''saml'', [''cn''])])],
     template_attributes = None,
     to_internal_attributes =
       [(''saml'', [(''email'', ''mail''), (''mail'', ''mail''), (''cn'', ''name'')])] \<rparr>"
  from to_internal_filter_names[of ?m "''oidc''" "[''email'', ''cn'']"]
  have a: "fst (to_internal_filter ?m ''oidc'' [''email'', ''cn'']) = []" by simp
  from to_internal_filter_names[of ?m "''saml''" "[''email'', ''mail'', ''cn'', ''zzz'']"]
  have b: "set (fst (to_internal_filter ?m ''saml'' [''email'', ''mail'', ''cn'', ''zzz''])) =
      {''mail'', ''name''}"
    by auto
  from a b show ?thesis by blast
qed

section \<open>The scope filter (C10)\<close>

text \<open>
  Claim C10. For a string with at least one \<^verbatim>\<open>@\<close>, \<open>scope\<close> returns everything after the
  first \<^verbatim>\<open>@\<close> (the prefix \<open>pre\<close> holds none, the suffix may hold more of them), and
  \<open>scope\<close> raises \<open>ValueError\<close> exactly when the string holds no \<^verbatim>\<open>@\<close>.
\<close>

theorem scope_after_first_at:
  "(CHR ''@'' \<notin> set pre \<longrightarrow> scope (pre @ CHR ''@'' # suf) = Inr suf) \<and>
   (scope s = Inl ValueError \<longleftrightarrow> CHR ''@'' \<notin> set s) \<and>
   (CHR ''@'' \<in> set s \<longrightarrow>
      (\<exists>pre suf. s = pre @ CHR ''@'' # suf \<and> CHR ''@'' \<notin> set pre \<and> scope s = Inr suf))"
proof (intro conjI impI)
  assume "CHR ''@'' \<notin> set pre"
  then show "scope (pre @ CHR ''@'' # suf) = Inr suf"
    by (simp add: scope_def str_partition_first)
next
  show "scope s = Inl ValueError \<longleftrightarrow> CHR ''@'' \<notin> set s"
    by (auto simp: scope_def split: prod.splits)
next
  assume "CHR ''@'' \<in> set s"
  then obtain pre suf where s: "s = pre @ CHR ''@'' # suf" and pre: "CHR ''@'' \<notin> set pre"
    by (auto dest: split_list_first)
  then have "scope s = Inr suf"
    by (simp add: scope_def str_partition_first)
  with s pre show "\<exists>pre suf. s = pre @ CHR ''@'' # suf \<and> CHR ''@'' \<notin> set pre \<and> scope s = Inr suf"
    by blast
qed

theorem scope_after_first_at_witness:
  "scope ''a@b@c'' = Inr ''b@c'' \<and> scope ''abc'' = Inl ValueError"
  using scope_after_first_at [of "''a''" "''b@c''" "''abc''"]
  by simp

end
